theory Spec2Isabelle
  imports Main "HOL-Library.Word"
begin

section \<open>Values of the request body\<close>

text \<open>
  Fields of \<open>req.body\<close> are JavaScript values. Numbers are represented by the integers
  and \<open>NaN\<close>; the handlers only test a number for truthiness and compare values with
  string and boolean literals, so nothing below depends on a fractional part. Arrays and
  objects are compared by reference in JavaScript, hence never equal to a literal.
\<close>

datatype jsval =
    JUndefined
  | JNull
  | JBool bool
  | JNum int
  | JNaN
  | JStr string
  | JArr "jsval list"
  | JObj "(string \<times> jsval) list"

text \<open>Truthiness, as tested by \<open>appAssert(v, ...)\<close>, \<open>a && b\<close> and \<open>if (!v)\<close>.\<close>

fun truthy :: "jsval \<Rightarrow> bool" where
  "truthy JUndefined = False"
| "truthy JNull = False"
| "truthy (JBool b) = b"
| "truthy (JNum n) = (n \<noteq> 0)"
| "truthy JNaN = False"
| "truthy (JStr s) = (s \<noteq> [])"
| "truthy (JArr _) = True"
| "truthy (JObj _) = True"

section \<open>The persisted entities\<close>

text \<open>
  The Prisma schema is not part of the sources. The rows carry the columns the handlers
  read and write. Identifiers are strings (they arrive as path parameters and are passed
  to the client unconverted); columns filled from the request body hold the value given.
\<close>

record user =
  user_userId :: string
  user_firstName :: string
  user_lastName :: string

record teacher =
  teacher_teacherId :: string
  teacher_userId :: string

record subject =
  subject_subjectId :: string
  subject_name :: string

record course =
  course_courseId :: string
  course_title :: jsval
  course_description :: jsval
  course_isPublic :: bool
  course_teacherId :: string
  course_subjectId :: jsval
  course_image :: string

record topic =
  topic_topicId :: string
  topic_title :: jsval
  topic_courseId :: string

record content =
  content_contentId :: string
  content_type :: jsval
  content_data :: jsval
  content_topicId :: string

text \<open>Enrollments, quizzes and exams are only read, as collections related to a course.\<close>

record enrollment =
  enrollment_enrollmentId :: string
  enrollment_courseId :: string

record quiz =
  quiz_quizId :: string
  quiz_courseId :: string

record exam =
  exam_examId :: string
  exam_courseId :: string

record db =
  users :: "user list"
  teachers :: "teacher list"
  subjects :: "subject list"
  courses :: "course list"
  topics :: "topic list"
  contents :: "content list"
  enrollments :: "enrollment list"
  quizzes :: "quiz list"
  exams :: "exam list"

section \<open>The requests and the replies\<close>

text \<open>
  An uploaded file as the upload middleware stages it: \<open>upload_path\<close> is \<open>req.file.path\<close>
  and \<open>upload_bytes\<close> is what \<open>fs.readFileSync\<close> reads at that path.
\<close>

record upload =
  upload_path :: string
  upload_bytes :: "8 word list"

datatype http_method = GET | POST | PUT | DELETE

record request =
  req_method :: http_method
  req_path :: "string list"
  req_params :: "(string \<times> string) list"
  req_body :: "(string \<times> jsval) list"
  req_userId :: "string option"
  req_file :: "upload option"

text \<open>\<open>const { f } = req.body\<close>: a field that is not there is \<open>undefined\<close>.\<close>

definition body_field :: "request \<Rightarrow> string \<Rightarrow> jsval" where
  "body_field req k = (case map_of (req_body req) k of None \<Rightarrow> JUndefined | Some v \<Rightarrow> v)"

definition param :: "request \<Rightarrow> string \<Rightarrow> string option" where
  "param req k = map_of (req_params req) k"

text \<open>The relations a query includes. A relation that is not included is absent (\<open>None\<close>).\<close>

record user_names =
  names_firstName :: string
  names_lastName :: string

record teacher_with_user =
  tu_teacher :: teacher
  tu_user :: "user_names option"

record topic_view =
  tv_topic :: topic
  tv_contents :: "content list option"

record course_listing =
  cl_course :: course
  cl_teacher :: "teacher_with_user option"

record public_course =
  pc_course :: course
  pc_teacher :: "teacher_with_user option"
  pc_subject :: "subject option"
  pc_topics :: "topic_view list"

record course_detail =
  cd_course :: course
  cd_topics :: "topic_view list"
  cd_teacher :: "teacher_with_user option"
  cd_enrollments :: "enrollment list"
  cd_subject :: "subject option"
  cd_quizzes :: "quiz list"
  cd_exams :: "exam list"

datatype json_body =
    AppErrorBody string
  | ErrorBody string
  | MessageBody string
  | CourseBody course
  | TopicBody topic
  | ContentBody content
  | ContentsBody "content list"
  | CoursesBody "course_listing list"
  | PublicCoursesBody "public_course list"
  | CourseDetailBody course_detail

text \<open>
  A handler either sends a reply, or lets an exception escape to the \<open>catchErrors\<close>
  wrapper (\<open>Uncaught\<close>); what the application answers then is decided outside this file.
\<close>

datatype reply = Reply nat json_body | Uncaught string

text \<open>
  Modelled from the spec: the constants of \<open>../constants/http\<close>, which is not part of
  the sources; the values are those of section 6 of the specification.
\<close>

definition OK :: nat where "OK = 200"
definition CREATED :: nat where "CREATED = 201"
definition BAD_REQUEST :: nat where "BAD_REQUEST = 400"
definition UNAUTHORIZED :: nat where "UNAUTHORIZED = 401"
definition NOT_FOUND :: nat where "NOT_FOUND = 404"

text \<open>
  Modelled from the spec: \<open>appAssert(cond, status, message)\<close> of \<open>../utils/appAssert\<close>
  and the \<open>catchErrors\<close> wrapper, which are not part of the sources. A failed assertion
  ends the handler, and the request is answered with the status and the message given
  (section 7 of the specification).
\<close>

definition appAssert :: "bool \<Rightarrow> nat \<Rightarrow> string \<Rightarrow> db \<Rightarrow> (reply \<times> db) \<Rightarrow> (reply \<times> db)" where
  "appAssert cond st msg d rest = (if cond then rest else (Reply st (AppErrorBody msg), d))"

section \<open>The storage client\<close>

text \<open>
  \<open>findUnique\<close> on the identifier of a table: the row with that identifier, if any.
\<close>

definition course_findUnique :: "db \<Rightarrow> string \<Rightarrow> course option" where
  "course_findUnique d cid = find (\<lambda>c. course_courseId c = cid) (courses d)"

definition topic_findUnique :: "db \<Rightarrow> string \<Rightarrow> topic option" where
  "topic_findUnique d tid = find (\<lambda>t. topic_topicId t = tid) (topics d)"

definition content_findUnique :: "db \<Rightarrow> string \<Rightarrow> content option" where
  "content_findUnique d kid = find (\<lambda>k. content_contentId k = kid) (contents d)"

definition teacher_findUnique_userId :: "db \<Rightarrow> string \<Rightarrow> teacher option" where
  "teacher_findUnique_userId d uid = find (\<lambda>t. teacher_userId t = uid) (teachers d)"

text \<open>The relations followed by \<open>include\<close>.\<close>

definition course_teacher :: "db \<Rightarrow> course \<Rightarrow> teacher option" where
  "course_teacher d c = find (\<lambda>t. teacher_teacherId t = course_teacherId c) (teachers d)"

definition topic_course :: "db \<Rightarrow> topic \<Rightarrow> course option" where
  "topic_course d t = course_findUnique d (topic_courseId t)"

definition content_topic :: "db \<Rightarrow> content \<Rightarrow> topic option" where
  "content_topic d k = topic_findUnique d (content_topicId k)"

definition teacher_user :: "db \<Rightarrow> teacher \<Rightarrow> user_names option" where
  "teacher_user d t =
     map_option (\<lambda>u. \<lparr>names_firstName = user_firstName u, names_lastName = user_lastName u\<rparr>)
       (find (\<lambda>u. user_userId u = teacher_userId t) (users d))"

definition course_subject :: "db \<Rightarrow> course \<Rightarrow> subject option" where
  "course_subject d c =
     (case course_subjectId c of
        JStr s \<Rightarrow> find (\<lambda>x. subject_subjectId x = s) (subjects d)
      | _ \<Rightarrow> None)"

definition course_topics :: "db \<Rightarrow> course \<Rightarrow> topic list" where
  "course_topics d c = filter (\<lambda>t. topic_courseId t = course_courseId c) (topics d)"

definition topic_contents :: "db \<Rightarrow> topic \<Rightarrow> content list" where
  "topic_contents d t = filter (\<lambda>k. content_topicId k = topic_topicId t) (contents d)"

definition course_enrollments :: "db \<Rightarrow> course \<Rightarrow> enrollment list" where
  "course_enrollments d c =
     filter (\<lambda>e. enrollment_courseId e = course_courseId c) (enrollments d)"

definition course_quizzes :: "db \<Rightarrow> course \<Rightarrow> quiz list" where
  "course_quizzes d c = filter (\<lambda>q. quiz_courseId q = course_courseId c) (quizzes d)"

definition course_exams :: "db \<Rightarrow> course \<Rightarrow> exam list" where
  "course_exams d c = filter (\<lambda>e. exam_courseId e = course_courseId c) (exams d)"

text \<open>\<open>teacher: { include: { user: { select: { firstName: true, lastName: true } } } }\<close>\<close>

definition include_teacher_user :: "db \<Rightarrow> course \<Rightarrow> teacher_with_user option" where
  "include_teacher_user d c =
     map_option (\<lambda>t. \<lparr>tu_teacher = t, tu_user = teacher_user d t\<rparr>) (course_teacher d c)"

text \<open>
  The writes a handler issues. The arguments are those of the call, in the order of the
  source; the first argument of an update or a delete is the \<open>where\<close> identifier.
\<close>

datatype store_write =
    CourseCreate jsval jsval bool string jsval string
  | CourseUpdate string jsval jsval bool jsval string
  | CourseDelete string
  | TopicCreate jsval jsval
  | TopicUpdate string jsval
  | TopicDelete string
  | ContentCreate jsval jsval jsval
  | ContentUpdate string jsval jsval
  | ContentDelete string

text \<open>
  What the Prisma schema, which is not part of the sources, decides is a parameter of
  the handlers: \<open>accepts\<close> tells whether the client carries a write out in a given store
  (column types, required columns, uniqueness, foreign keys) or throws instead, and
  \<open>new_id\<close> is the default of the identifier column of a created row.
\<close>

record prisma_schema =
  accepts :: "db \<Rightarrow> store_write \<Rightarrow> bool"
  new_id :: "db \<Rightarrow> string"

text \<open>In the data of an update \<open>undefined\<close> leaves the column as it is.\<close>

definition set_column :: "jsval \<Rightarrow> jsval \<Rightarrow> jsval" where
  "set_column new old = (if new = JUndefined then old else new)"

text \<open>In the data of a create \<open>undefined\<close> leaves the column empty.\<close>

definition init_column :: "jsval \<Rightarrow> jsval" where
  "init_column new = (if new = JUndefined then JNull else new)"

text \<open>An identifier taken from the body and stored in a reference column.\<close>

fun id_of :: "jsval \<Rightarrow> string option" where
  "id_of (JStr s) = Some s"
| "id_of _ = None"

definition course_create ::
  "prisma_schema \<Rightarrow> db \<Rightarrow> jsval \<Rightarrow> jsval \<Rightarrow> bool \<Rightarrow> string \<Rightarrow> jsval \<Rightarrow> string \<Rightarrow> (course \<times> db) option" where
  "course_create sch d title description isPublic teacherId subjectId imageBase64 =
     (if accepts sch d (CourseCreate title description isPublic teacherId subjectId imageBase64) then
        let row = \<lparr>course_courseId = new_id sch d,
                   course_title = title,
                   course_description = init_column description,
                   course_isPublic = isPublic,
                   course_teacherId = teacherId,
                   course_subjectId = init_column subjectId,
                   course_image = imageBase64\<rparr>
        in Some (row, d\<lparr>courses := courses d @ [row]\<rparr>)
      else None)"

definition course_update ::
  "prisma_schema \<Rightarrow> db \<Rightarrow> string \<Rightarrow> jsval \<Rightarrow> jsval \<Rightarrow> bool \<Rightarrow> jsval \<Rightarrow> string \<Rightarrow> (course \<times> db) option" where
  "course_update sch d cid title description isPublic subjectId imageBase64 =
     (case course_findUnique d cid of
        None \<Rightarrow> None
      | Some old \<Rightarrow>
          if accepts sch d (CourseUpdate cid title description isPublic subjectId imageBase64) then
            let upd = (\<lambda>c. c\<lparr>course_title := set_column title (course_title c),
                             course_description := set_column description (course_description c),
                             course_isPublic := isPublic,
                             course_subjectId := set_column subjectId (course_subjectId c),
                             course_image := imageBase64\<rparr>)
            in Some (upd old,
                     d\<lparr>courses := map (\<lambda>c. if course_courseId c = cid then upd c else c) (courses d)\<rparr>)
          else None)"

text \<open>
  A delete removes the row named. Whether the rows below it go with it is decided by the
  schema; the handlers issue no other delete.
\<close>

definition course_delete :: "prisma_schema \<Rightarrow> db \<Rightarrow> string \<Rightarrow> db option" where
  "course_delete sch d cid =
     (case course_findUnique d cid of
        None \<Rightarrow> None
      | Some _ \<Rightarrow>
          if accepts sch d (CourseDelete cid)
          then Some (d\<lparr>courses := filter (\<lambda>c. course_courseId c \<noteq> cid) (courses d)\<rparr>)
          else None)"

definition topic_create :: "prisma_schema \<Rightarrow> db \<Rightarrow> jsval \<Rightarrow> jsval \<Rightarrow> (topic \<times> db) option" where
  "topic_create sch d title courseId =
     (case id_of courseId of
        None \<Rightarrow> None
      | Some cid \<Rightarrow>
          if accepts sch d (TopicCreate title courseId) then
            let row = \<lparr>topic_topicId = new_id sch d, topic_title = title, topic_courseId = cid\<rparr>
            in Some (row, d\<lparr>topics := topics d @ [row]\<rparr>)
          else None)"

definition topic_update :: "prisma_schema \<Rightarrow> db \<Rightarrow> string \<Rightarrow> jsval \<Rightarrow> (topic \<times> db) option" where
  "topic_update sch d tid title =
     (case topic_findUnique d tid of
        None \<Rightarrow> None
      | Some old \<Rightarrow>
          if accepts sch d (TopicUpdate tid title) then
            let upd = (\<lambda>t. t\<lparr>topic_title := set_column title (topic_title t)\<rparr>)
            in Some (upd old,
                     d\<lparr>topics := map (\<lambda>t. if topic_topicId t = tid then upd t else t) (topics d)\<rparr>)
          else None)"

definition topic_delete :: "prisma_schema \<Rightarrow> db \<Rightarrow> string \<Rightarrow> db option" where
  "topic_delete sch d tid =
     (case topic_findUnique d tid of
        None \<Rightarrow> None
      | Some _ \<Rightarrow>
          if accepts sch d (TopicDelete tid)
          then Some (d\<lparr>topics := filter (\<lambda>t. topic_topicId t \<noteq> tid) (topics d)\<rparr>)
          else None)"

definition content_create ::
  "prisma_schema \<Rightarrow> db \<Rightarrow> jsval \<Rightarrow> jsval \<Rightarrow> jsval \<Rightarrow> (content \<times> db) option" where
  "content_create sch d type data topicId =
     (case id_of topicId of
        None \<Rightarrow> None
      | Some tid \<Rightarrow>
          if accepts sch d (ContentCreate type data topicId) then
            let row = \<lparr>content_contentId = new_id sch d, content_type = type,
                       content_data = data, content_topicId = tid\<rparr>
            in Some (row, d\<lparr>contents := contents d @ [row]\<rparr>)
          else None)"

definition content_update ::
  "prisma_schema \<Rightarrow> db \<Rightarrow> string \<Rightarrow> jsval \<Rightarrow> jsval \<Rightarrow> (content \<times> db) option" where
  "content_update sch d kid type data =
     (case content_findUnique d kid of
        None \<Rightarrow> None
      | Some old \<Rightarrow>
          if accepts sch d (ContentUpdate kid type data) then
            let upd = (\<lambda>k. k\<lparr>content_type := set_column type (content_type k),
                             content_data := set_column data (content_data k)\<rparr>)
            in Some (upd old,
                     d\<lparr>contents := map (\<lambda>k. if content_contentId k = kid then upd k else k) (contents d)\<rparr>)
          else None)"

definition content_delete :: "prisma_schema \<Rightarrow> db \<Rightarrow> string \<Rightarrow> db option" where
  "content_delete sch d kid =
     (case content_findUnique d kid of
        None \<Rightarrow> None
      | Some _ \<Rightarrow>
          if accepts sch d (ContentDelete kid)
          then Some (d\<lparr>contents := filter (\<lambda>k. content_contentId k \<noteq> kid) (contents d)\<rparr>)
          else None)"

section \<open>Reading and encoding the uploaded image\<close>

definition readFileSync :: "upload \<Rightarrow> 8 word list" where
  "readFileSync f = upload_bytes f"

definition base64_alphabet :: string where
  "base64_alphabet = ''ABCDEFGHIJKLMNOPQRSTUVWXYZabcdefghijklmnopqrstuvwxyz0123456789+/''"

definition base64_digit :: "nat \<Rightarrow> char" where
  "base64_digit n = base64_alphabet ! (n mod 64)"

text \<open>\<open>buffer.toString("base64")\<close>: three bytes give four digits, the rest is padded.\<close>

fun toString_base64 :: "8 word list \<Rightarrow> string" where
  "toString_base64 [] = []"
| "toString_base64 [a] =
     [base64_digit (unat a div 4), base64_digit ((unat a mod 4) * 16), CHR ''='', CHR ''='']"
| "toString_base64 [a, b] =
     [base64_digit (unat a div 4), base64_digit ((unat a mod 4) * 16 + unat b div 16),
      base64_digit ((unat b mod 16) * 4), CHR ''='']"
| "toString_base64 (a # b # c # rest) =
     [base64_digit (unat a div 4), base64_digit ((unat a mod 4) * 16 + unat b div 16),
      base64_digit ((unat b mod 16) * 4 + unat c div 64), base64_digit (unat c mod 64)]
     @ toString_base64 rest"

section \<open>The handlers of CourseController.ts\<close>

text \<open>
  A handler takes the store and the request and gives the reply and the store after it.
  The handlers are transcribed statement by statement. An absent \<open>req.userId\<close> or path
  parameter is \<open>undefined\<close>: it is equal (\<open>===\<close>) to no stored identifier, and a
  \<open>findUnique\<close> whose \<open>where\<close> is \<open>undefined\<close> or not a string throws. Reading a field
  of a relation that is \<open>null\<close> throws a \<open>TypeError\<close>.
\<close>

type_synonym handler = "db \<Rightarrow> request \<Rightarrow> reply \<times> db"

text \<open>\<open>isPublic === "true" || isPublic === true\<close>\<close>

definition isPublicBoolean :: "jsval \<Rightarrow> bool" where
  "isPublicBoolean isPublic = (isPublic = JStr ''true'' \<or> isPublic = JBool True)"

definition validTypes :: "jsval list" where
  "validTypes = [JStr ''TEXT'', JStr ''LINK'', JStr ''YOUTUBE_VIDEO'']"

definition createCourseHandler :: "prisma_schema \<Rightarrow> handler" where
  "createCourseHandler sch d req =
     (let title = body_field req ''title'';
          description = body_field req ''description'';
          isPublic = body_field req ''isPublic'';
          subjectId = body_field req ''subjectId'';
          teacherId = req_userId req
      in appAssert (truthy title) BAD_REQUEST ''Missing required fields'' d
          (case teacherId of
             None \<Rightarrow> (Uncaught ''PrismaClientValidationError'', d)
           | Some uid \<Rightarrow>
               (case teacher_findUnique_userId d uid of
                  None \<Rightarrow> (Reply NOT_FOUND (ErrorBody ''Teacher not found''), d)
                | Some teacher \<Rightarrow>
                    (case req_file req of
                       None \<Rightarrow> (Reply BAD_REQUEST (ErrorBody ''No image uploaded''), d)
                     | Some img \<Rightarrow>
                         (let imageBuffer = readFileSync img;
                              imageBase64 = toString_base64 imageBuffer;
                              isPublicB = isPublicBoolean isPublic
                          in case course_create sch d title description isPublicB
                                    (teacher_teacherId teacher) subjectId imageBase64 of
                               Some (course, d') \<Rightarrow> (Reply CREATED (CourseBody course), d')
                             | None \<Rightarrow>
                                 (Reply BAD_REQUEST (ErrorBody ''Failed to create course''), d))))))"

definition getAllCoursesHandler :: handler where
  "getAllCoursesHandler d req =
     (let courses = map (\<lambda>c. \<lparr>cl_course = c, cl_teacher = include_teacher_user d c\<rparr>) (courses d)
      in (Reply OK (CoursesBody courses), d))"

definition getPublicCoursesHandler :: handler where
  "getPublicCoursesHandler d req =
     (let publicCourses =
            map (\<lambda>c. \<lparr>pc_course = c,
                      pc_teacher = include_teacher_user d c,
                      pc_subject = course_subject d c,
                      pc_topics = map (\<lambda>t. \<lparr>tv_topic = t, tv_contents = Some (topic_contents d t)\<rparr>)
                                    (course_topics d c)\<rparr>)
              (filter (\<lambda>c. course_isPublic c = True) (courses d))
      in (Reply OK (PublicCoursesBody publicCourses), d))"

definition addTopicToCourseHandler :: "prisma_schema \<Rightarrow> handler" where
  "addTopicToCourseHandler sch d req =
     (let courseId = body_field req ''courseId'';
          title = body_field req ''title'';
          teacherId = req_userId req
      in appAssert (truthy courseId \<and> truthy title) BAD_REQUEST ''Missing required fields'' d
          (case id_of courseId of
             None \<Rightarrow> (Uncaught ''PrismaClientValidationError'', d)
           | Some cid \<Rightarrow>
               (case course_findUnique d cid of
                  None \<Rightarrow> (Reply NOT_FOUND (AppErrorBody ''Course not found''), d)
                | Some course \<Rightarrow>
                    (case course_teacher d course of
                       None \<Rightarrow> (Uncaught ''TypeError'', d)
                     | Some teacher \<Rightarrow>
                         appAssert (Some (teacher_userId teacher) = teacherId) UNAUTHORIZED
                           ''Unauthorized to add topic to this course'' d
                           (case topic_create sch d title courseId of
                              None \<Rightarrow> (Uncaught ''PrismaClientError'', d)
                            | Some (topic, d') \<Rightarrow> (Reply CREATED (TopicBody topic), d'))))))"

definition addContentToTopicHandler :: "prisma_schema \<Rightarrow> handler" where
  "addContentToTopicHandler sch d req =
     (let topicId = body_field req ''topicId'';
          type = body_field req ''type'';
          data = body_field req ''data'';
          teacherId = req_userId req
      in appAssert (truthy topicId \<and> truthy type \<and> truthy data) BAD_REQUEST
           ''Missing required fields'' d
          (case id_of topicId of
             None \<Rightarrow> (Uncaught ''PrismaClientValidationError'', d)
           | Some tid \<Rightarrow>
               (case topic_findUnique d tid of
                  None \<Rightarrow> (Reply NOT_FOUND (AppErrorBody ''Topic not found''), d)
                | Some topic \<Rightarrow>
                    (case topic_course d topic of
                       None \<Rightarrow> (Uncaught ''TypeError'', d)
                     | Some course \<Rightarrow>
                         (case course_teacher d course of
                            None \<Rightarrow> (Uncaught ''TypeError'', d)
                          | Some teacher \<Rightarrow>
                              appAssert (Some (teacher_userId teacher) = teacherId) UNAUTHORIZED
                                ''Unauthorized to add content to this topic'' d
                                (appAssert (type \<in> set validTypes) BAD_REQUEST
                                   ''Invalid content type'' d
                                   (case content_create sch d type data topicId of
                                      None \<Rightarrow> (Uncaught ''PrismaClientError'', d)
                                    | Some (content, d') \<Rightarrow>
                                        (Reply CREATED (ContentBody content), d'))))))))"

definition deleteCourseHandler :: "prisma_schema \<Rightarrow> handler" where
  "deleteCourseHandler sch d req =
     (let courseId = param req ''courseId'';
          teacherId = req_userId req
      in case courseId of
           None \<Rightarrow> (Uncaught ''PrismaClientValidationError'', d)
         | Some cid \<Rightarrow>
             (case course_findUnique d cid of
                None \<Rightarrow> (Reply NOT_FOUND (AppErrorBody ''Course not found''), d)
              | Some course \<Rightarrow>
                  (case course_teacher d course of
                     None \<Rightarrow> (Uncaught ''TypeError'', d)
                   | Some teacher \<Rightarrow>
                       appAssert (Some (teacher_userId teacher) = teacherId) UNAUTHORIZED
                         ''Unauthorized to delete this course'' d
                         (case course_delete sch d cid of
                            None \<Rightarrow> (Uncaught ''PrismaClientError'', d)
                          | Some d' \<Rightarrow>
                              (Reply OK (MessageBody ''Course deleted successfully''), d')))))"

definition updateCourseHandler :: "prisma_schema \<Rightarrow> handler" where
  "updateCourseHandler sch d req =
     (let courseId = param req ''courseId'';
          teacherId = req_userId req;
          title = body_field req ''title'';
          description = body_field req ''description'';
          isPublic = body_field req ''isPublic'';
          subjectId = body_field req ''subjectId''
      in case courseId of
           None \<Rightarrow> (Uncaught ''PrismaClientValidationError'', d)
         | Some cid \<Rightarrow>
             (case course_findUnique d cid of
                None \<Rightarrow> (Reply NOT_FOUND (AppErrorBody ''Course not found''), d)
              | Some course \<Rightarrow>
                  (case course_teacher d course of
                     None \<Rightarrow> (Uncaught ''TypeError'', d)
                   | Some teacher \<Rightarrow>
                       appAssert (Some (teacher_userId teacher) = teacherId) UNAUTHORIZED
                         ''Unauthorized to update this course'' d
                         (let isPublicB = isPublicBoolean isPublic;
                              imageBase64 =
                                (case req_file req of
                                   None \<Rightarrow> course_image course
                                 | Some file \<Rightarrow> toString_base64 (readFileSync file))
                          in case course_update sch d cid title description isPublicB
                                    subjectId imageBase64 of
                               None \<Rightarrow> (Uncaught ''PrismaClientError'', d)
                             | Some (updatedCourse, d') \<Rightarrow>
                                 (Reply OK (CourseBody updatedCourse), d')))))"

definition updateTopicHandler :: "prisma_schema \<Rightarrow> handler" where
  "updateTopicHandler sch d req =
     (let topicId = param req ''topicId'';
          teacherId = req_userId req;
          title = body_field req ''title''
      in case topicId of
           None \<Rightarrow> (Uncaught ''PrismaClientValidationError'', d)
         | Some tid \<Rightarrow>
             (case topic_findUnique d tid of
                None \<Rightarrow> (Reply NOT_FOUND (AppErrorBody ''Topic not found''), d)
              | Some topic \<Rightarrow>
                  (case topic_course d topic of
                     None \<Rightarrow> (Uncaught ''TypeError'', d)
                   | Some course \<Rightarrow>
                       (case course_teacher d course of
                          None \<Rightarrow> (Uncaught ''TypeError'', d)
                        | Some teacher \<Rightarrow>
                            appAssert (Some (teacher_userId teacher) = teacherId) UNAUTHORIZED
                              ''Unauthorized to update this topic'' d
                              (case topic_update sch d tid title of
                                 None \<Rightarrow> (Uncaught ''PrismaClientError'', d)
                               | Some (updatedTopic, d') \<Rightarrow>
                                   (Reply OK (TopicBody updatedTopic), d'))))))"

definition updateContentHandler :: "prisma_schema \<Rightarrow> handler" where
  "updateContentHandler sch d req =
     (let contentId = param req ''contentId'';
          teacherId = req_userId req;
          type = body_field req ''type'';
          data = body_field req ''data''
      in case contentId of
           None \<Rightarrow> (Uncaught ''PrismaClientValidationError'', d)
         | Some kid \<Rightarrow>
             (case content_findUnique d kid of
                None \<Rightarrow> (Reply NOT_FOUND (AppErrorBody ''Content not found''), d)
              | Some content \<Rightarrow>
                  (case content_topic d content of
                     None \<Rightarrow> (Uncaught ''TypeError'', d)
                   | Some topic \<Rightarrow>
                       (case topic_course d topic of
                          None \<Rightarrow> (Uncaught ''TypeError'', d)
                        | Some course \<Rightarrow>
                            (case course_teacher d course of
                               None \<Rightarrow> (Uncaught ''TypeError'', d)
                             | Some teacher \<Rightarrow>
                                 appAssert (Some (teacher_userId teacher) = teacherId) UNAUTHORIZED
                                   ''Unauthorized to update this content'' d
                                   (case content_update sch d kid type data of
                                      None \<Rightarrow> (Uncaught ''PrismaClientError'', d)
                                    | Some (updatedContent, d') \<Rightarrow>
                                        (Reply OK (ContentBody updatedContent), d')))))))"

definition deleteContentHandler :: "prisma_schema \<Rightarrow> handler" where
  "deleteContentHandler sch d req =
     (let contentId = param req ''contentId'';
          teacherId = req_userId req
      in case contentId of
           None \<Rightarrow> (Uncaught ''PrismaClientValidationError'', d)
         | Some kid \<Rightarrow>
             (case content_findUnique d kid of
                None \<Rightarrow> (Reply NOT_FOUND (AppErrorBody ''Content not found''), d)
              | Some content \<Rightarrow>
                  (case content_topic d content of
                     None \<Rightarrow> (Uncaught ''TypeError'', d)
                   | Some topic \<Rightarrow>
                       (case topic_course d topic of
                          None \<Rightarrow> (Uncaught ''TypeError'', d)
                        | Some course \<Rightarrow>
                            (case course_teacher d course of
                               None \<Rightarrow> (Uncaught ''TypeError'', d)
                             | Some teacher \<Rightarrow>
                                 appAssert (Some (teacher_userId teacher) = teacherId) UNAUTHORIZED
                                   ''Unauthorized to delete this content'' d
                                   (case content_delete sch d kid of
                                      None \<Rightarrow> (Uncaught ''PrismaClientError'', d)
                                    | Some d' \<Rightarrow>
                                        (Reply OK (MessageBody ''Content deleted successfully''),
                                         d')))))))"

text \<open>
  The query of \<open>getCourseByIdHandler\<close> includes the topics with \<open>contents: false\<close>: the
  topics of the reply carry no contents.
\<close>

definition getCourseByIdHandler :: handler where
  "getCourseByIdHandler d req =
     (let courseId = param req ''courseId''
      in case courseId of
           None \<Rightarrow> (Uncaught ''PrismaClientValidationError'', d)
         | Some cid \<Rightarrow>
             (case course_findUnique d cid of
                None \<Rightarrow> (Reply NOT_FOUND (AppErrorBody ''Course not found''), d)
              | Some c \<Rightarrow>
                  (Reply OK (CourseDetailBody
                     \<lparr>cd_course = c,
                      cd_topics = map (\<lambda>t. \<lparr>tv_topic = t, tv_contents = None\<rparr>) (course_topics d c),
                      cd_teacher = include_teacher_user d c,
                      cd_enrollments = course_enrollments d c,
                      cd_subject = course_subject d c,
                      cd_quizzes = course_quizzes d c,
                      cd_exams = course_exams d c\<rparr>), d)))"

definition deleteTopicHandler :: "prisma_schema \<Rightarrow> handler" where
  "deleteTopicHandler sch d req =
     (let topicId = param req ''topicId'';
          teacherId = req_userId req
      in case topicId of
           None \<Rightarrow> (Uncaught ''PrismaClientValidationError'', d)
         | Some tid \<Rightarrow>
             (case topic_findUnique d tid of
                None \<Rightarrow> (Reply NOT_FOUND (AppErrorBody ''Topic not found''), d)
              | Some topic \<Rightarrow>
                  (case topic_course d topic of
                     None \<Rightarrow> (Uncaught ''TypeError'', d)
                   | Some course \<Rightarrow>
                       (case course_teacher d course of
                          None \<Rightarrow> (Uncaught ''TypeError'', d)
                        | Some teacher \<Rightarrow>
                            appAssert (Some (teacher_userId teacher) = teacherId) UNAUTHORIZED
                              ''Unauthorized to delete this topic'' d
                              (case topic_delete sch d tid of
                                 None \<Rightarrow> (Uncaught ''PrismaClientError'', d)
                               | Some d' \<Rightarrow>
                                   (Reply OK (MessageBody ''Topic deleted successfully''), d'))))))"

definition getTopicContentHandler :: handler where
  "getTopicContentHandler d req =
     (let topicId = param req ''topicId''
      in case topicId of
           None \<Rightarrow> (Uncaught ''PrismaClientValidationError'', d)
         | Some tid \<Rightarrow>
             (case topic_findUnique d tid of
                None \<Rightarrow> (Reply NOT_FOUND (AppErrorBody ''Topic not found''), d)
              | Some topic \<Rightarrow> (Reply OK (ContentsBody (topic_contents d topic)), d)))"

section \<open>The router of CourseRoute.ts\<close>

text \<open>
  A middleware either answers the request itself or passes it on, possibly changed, to
  the next function of the route. \<open>authenticate\<close>, \<open>isTeacher\<close> and \<open>upload.single\<close> are
  imported from files that are not part of the sources; the router takes them as
  parameters.
\<close>

type_synonym middleware = "db \<Rightarrow> request \<Rightarrow> reply + request"

record collaborators =
  authenticate :: middleware
  isTeacher :: middleware
  upload_single :: "string \<Rightarrow> middleware"

datatype segment = Lit string | Par string

record route =
  route_method :: http_method
  route_path :: "segment list"
  route_chain :: "middleware list"
  route_handler :: handler

text \<open>
  \<open>express.Router()\<close> is created with its default options: the literal parts of a route
  path are matched without regard to the case of the letters \<open>A\<close> to \<open>Z\<close>, and one
  trailing slash is allowed, so that \<open>req_path\<close> is the list of the segments of the path
  without it.
\<close>

definition lower_char :: "char \<Rightarrow> char" where
  "lower_char c =
     (case map_of (zip ''ABCDEFGHIJKLMNOPQRSTUVWXYZ'' ''abcdefghijklmnopqrstuvwxyz'') c of
        None \<Rightarrow> c
      | Some l \<Rightarrow> l)"

definition same_segment :: "string \<Rightarrow> string \<Rightarrow> bool" where
  "same_segment s x = (map lower_char s = map lower_char x)"

text \<open>A path pattern matches segment by segment; \<open>:name\<close> binds one segment as it is.\<close>

fun match_path :: "segment list \<Rightarrow> string list \<Rightarrow> (string \<times> string) list option" where
  "match_path [] [] = Some []"
| "match_path (Lit s # ps) (x # xs) = (if same_segment s x then match_path ps xs else None)"
| "match_path (Par n # ps) (x # xs) = map_option ((#) (n, x)) (match_path ps xs)"
| "match_path _ _ = None"

fun run_chain :: "middleware list \<Rightarrow> handler \<Rightarrow> handler" where
  "run_chain [] h d req = h d req"
| "run_chain (m # ms) h d req =
     (case m d req of
        Inl answered \<Rightarrow> (answered, d)
      | Inr req' \<Rightarrow> run_chain ms h d req')"

text \<open>The routes in the order of their registration.\<close>

definition CourseRoutes :: "collaborators \<Rightarrow> prisma_schema \<Rightarrow> route list" where
  "CourseRoutes mw sch =
     [\<lparr>route_method = GET, route_path = [Lit ''all''], route_chain = [],
       route_handler = getAllCoursesHandler\<rparr>,
      \<lparr>route_method = GET, route_path = [Lit ''public''], route_chain = [],
       route_handler = getPublicCoursesHandler\<rparr>,
      \<lparr>route_method = GET, route_path = [Par ''courseId''], route_chain = [authenticate mw],
       route_handler = getCourseByIdHandler\<rparr>,
      \<lparr>route_method = POST, route_path = [Lit ''create''],
       route_chain = [authenticate mw, isTeacher mw, upload_single mw ''image''],
       route_handler = createCourseHandler sch\<rparr>,
      \<lparr>route_method = POST, route_path = [Par ''courseId'', Lit ''addTopic''],
       route_chain = [authenticate mw, isTeacher mw],
       route_handler = addTopicToCourseHandler sch\<rparr>,
      \<lparr>route_method = POST, route_path = [Par ''topicId'', Lit ''addContent''],
       route_chain = [authenticate mw, isTeacher mw],
       route_handler = addContentToTopicHandler sch\<rparr>,
      \<lparr>route_method = DELETE, route_path = [Par ''courseId''],
       route_chain = [authenticate mw, isTeacher mw],
       route_handler = deleteCourseHandler sch\<rparr>,
      \<lparr>route_method = PUT, route_path = [Par ''courseId''],
       route_chain = [authenticate mw, isTeacher mw, upload_single mw ''image''],
       route_handler = updateCourseHandler sch\<rparr>,
      \<lparr>route_method = PUT, route_path = [Lit ''topic'', Par ''topicId''],
       route_chain = [authenticate mw, isTeacher mw],
       route_handler = updateTopicHandler sch\<rparr>,
      \<lparr>route_method = PUT, route_path = [Lit ''content'', Par ''contentId''],
       route_chain = [authenticate mw, isTeacher mw],
       route_handler = updateContentHandler sch\<rparr>,
      \<lparr>route_method = DELETE, route_path = [Lit ''topic'', Par ''topicId''],
       route_chain = [authenticate mw, isTeacher mw],
       route_handler = deleteTopicHandler sch\<rparr>,
      \<lparr>route_method = DELETE, route_path = [Lit ''content'', Par ''contentId''],
       route_chain = [authenticate mw, isTeacher mw],
       route_handler = deleteContentHandler sch\<rparr>,
      \<lparr>route_method = GET, route_path = [Par ''topicId'', Lit ''content''],
       route_chain = [authenticate mw, isTeacher mw],
       route_handler = getTopicContentHandler\<rparr>]"

text \<open>
  The first route whose method and path match the request runs; every handler of this
  router answers, so no later route is tried. \<open>None\<close>: the request falls through the router.
\<close>

fun dispatch :: "route list \<Rightarrow> db \<Rightarrow> request \<Rightarrow> (reply \<times> db) option" where
  "dispatch [] d req = None"
| "dispatch (r # rs) d req =
     (if route_method r = req_method req then
        (case match_path (route_path r) (req_path req) of
           Some ps \<Rightarrow> Some (run_chain (route_chain r) (route_handler r) d (req\<lparr>req_params := ps\<rparr>))
         | None \<Rightarrow> dispatch rs d req)
      else dispatch rs d req)"

section \<open>A small store and some requests\<close>

text \<open>
  Two teachers, Ada (user \<open>u1\<close>) and Bob (user \<open>u2\<close>). Ada owns the public course \<open>c1\<close>
  with one topic holding one content item; Bob owns the private course \<open>c2\<close>.
\<close>

definition ada :: teacher where
  "ada = \<lparr>teacher_teacherId = ''t1'', teacher_userId = ''u1''\<rparr>"

definition bob :: teacher where
  "bob = \<lparr>teacher_teacherId = ''t2'', teacher_userId = ''u2''\<rparr>"

definition algebra :: course where
  "algebra = \<lparr>course_courseId = ''c1'', course_title = JStr ''Algebra I'',
              course_description = JNull, course_isPublic = True, course_teacherId = ''t1'',
              course_subjectId = JStr ''s1'', course_image = ''TWFu''\<rparr>"

definition drafts :: course where
  "drafts = \<lparr>course_courseId = ''c2'', course_title = JStr ''Drafts'',
             course_description = JNull, course_isPublic = False, course_teacherId = ''t2'',
             course_subjectId = JNull, course_image = ''TQ==''\<rparr>"

definition chapter1 :: topic where
  "chapter1 = \<lparr>topic_topicId = ''p1'', topic_title = JStr ''Chapter 1'', topic_courseId = ''c1''\<rparr>"

definition link1 :: content where
  "link1 = \<lparr>content_contentId = ''k1'', content_type = JStr ''LINK'',
            content_data = JStr ''http://x'', content_topicId = ''p1''\<rparr>"

definition demo_db :: db where
  "demo_db =
     \<lparr>users = [\<lparr>user_userId = ''u1'', user_firstName = ''Ada'', user_lastName = ''Lovelace''\<rparr>,
               \<lparr>user_userId = ''u2'', user_firstName = ''Bob'', user_lastName = ''Boole''\<rparr>],
      teachers = [ada, bob],
      subjects = [\<lparr>subject_subjectId = ''s1'', subject_name = ''Mathematics''\<rparr>],
      courses = [algebra, drafts],
      topics = [chapter1],
      contents = [link1],
      enrollments = [\<lparr>enrollment_enrollmentId = ''e1'', enrollment_courseId = ''c1''\<rparr>],
      quizzes = [],
      exams = []\<rparr>"

text \<open>A schema under which the client carries every write out.\<close>

definition permissive_schema :: prisma_schema where
  "permissive_schema = \<lparr>accepts = (\<lambda>d w. True), new_id = (\<lambda>d. ''fresh'')\<rparr>"




text \<open>Middlewares that turn every request away: whatever runs one of them answers 401.\<close>

definition closed_door :: collaborators where
  "closed_door =
     \<lparr>authenticate = (\<lambda>d req. Inl (Reply 401 (AppErrorBody ''Not authorized''))),
      isTeacher = (\<lambda>d req. Inl (Reply 401 (AppErrorBody ''Not authorized''))),
      upload_single = (\<lambda>name d req. Inl (Reply 401 (AppErrorBody ''Not authorized'')))\<rparr>"

text \<open>A request with no body, no identity and no file, for a method and a path.\<close>

definition bare_request :: "http_method \<Rightarrow> string list \<Rightarrow> request" where
  "bare_request m p =
     \<lparr>req_method = m, req_path = p, req_params = [], req_body = [],
      req_userId = None, req_file = None\<rparr>"

text \<open>Ada renames her course \<open>c1\<close>; the body has a title and nothing else.\<close>

definition rename_algebra :: request where
  "rename_algebra =
     \<lparr>req_method = PUT, req_path = [''c1''], req_params = [(''courseId'', ''c1'')],
      req_body = [(''title'', JStr ''Algebra II'')], req_userId = Some ''u1'',
      req_file = None\<rparr>"

text \<open>Bob, who owns neither \<open>c1\<close> nor anything below it, with no body and no file.\<close>

definition bob_on :: "http_method \<Rightarrow> string list \<Rightarrow> (string \<times> string) list \<Rightarrow> request" where
  "bob_on m p ps =
     \<lparr>req_method = m, req_path = p, req_params = ps, req_body = [],
      req_userId = Some ''u2'', req_file = None\<rparr>"

text \<open>A creation with a title and no file, by a user who has no teacher profile.\<close>

definition geometry_without_image :: request where
  "geometry_without_image =
     \<lparr>req_method = POST, req_path = [''create''], req_params = [],
      req_body = [(''title'', JStr ''Geometry''), (''isPublic'', JStr ''true'')],
      req_userId = Some ''u9'', req_file = None\<rparr>"

text \<open>A complete creation by Ada; the file holds the three bytes of \<open>Man\<close>.\<close>

definition geometry_by_ada :: request where
  "geometry_by_ada =
     \<lparr>req_method = POST, req_path = [''create''], req_params = [],
      req_body = [(''title'', JStr ''Geometry''), (''isPublic'', JStr ''true'')],
      req_userId = Some ''u1'',
      req_file = Some \<lparr>upload_path = ''uploads/g.png'', upload_bytes = [77, 97, 110]\<rparr>\<rparr>"

text \<open>Bob makes his course \<open>c2\<close> public with the boolean \<open>true\<close>.\<close>

definition publish_drafts :: request where
  "publish_drafts =
     \<lparr>req_method = PUT, req_path = [''c2''], req_params = [(''courseId'', ''c2'')],
      req_body = [(''isPublic'', JBool True)], req_userId = Some ''u2'',
      req_file = None\<rparr>"

text \<open>Ada adds a content item of type \<open>AUDIO\<close> to her topic \<open>p1\<close>.\<close>

definition audio_by_ada :: request where
  "audio_by_ada =
     \<lparr>req_method = POST, req_path = [''p1'', ''addContent''], req_params = [(''topicId'', ''p1'')],
      req_body = [(''topicId'', JStr ''p1''), (''type'', JStr ''AUDIO''),
                  (''data'', JStr ''http://x/a.mp3'')],
      req_userId = Some ''u1'', req_file = None\<rparr>"



text \<open>Bob reads the course \<open>c1\<close>.\<close>

definition get_algebra :: request where
  "get_algebra =
     \<lparr>req_method = GET, req_path = [''c1''], req_params = [(''courseId'', ''c1'')],
      req_body = [], req_userId = Some ''u2'', req_file = None\<rparr>"

section \<open>Lemmas on the storage client and the handlers\<close>

lemma find_map_keep:
  assumes "\<And>x. P (f x) = P x"
  shows "find P (map f xs) = map_option f (find P xs)"
  using assms by (induction xs) auto

lemma find_Some_holds:
  assumes "find P xs = Some x"
  shows "P x"
  using assms by (induction xs) (auto split: if_splits)

lemma course_update_result:
  assumes "course_findUnique d cid = Some c"
    and "accepts sch d (CourseUpdate cid t de p s img)"
  shows "\<exists>c' d'. course_update sch d cid t de p s img = Some (c', d')
           \<and> course_findUnique d' cid = Some c' \<and> course_isPublic c' = p"
proof -
  have "course_courseId c = cid"
    using assms(1) find_Some_holds [of "\<lambda>c. course_courseId c = cid"]
    by (simp add: course_findUnique_def)
  then show ?thesis
    using assms
    by (simp add: course_update_def course_findUnique_def Let_def find_map_keep)
qed

text \<open>
  An update of an existing course by its owner, with a write the schema accepts, is
  answered 200 with the stored row, whose visibility is the parsed flag of the body.
\<close>

lemma updateCourseHandler_owner:
  assumes "param req ''courseId'' = Some cid"
    and "course_findUnique d cid = Some c"
    and "course_teacher d c = Some t"
    and "req_userId req = Some (teacher_userId t)"
    and "accepts sch d
           (CourseUpdate cid (body_field req ''title'') (body_field req ''description'')
              (isPublicBoolean (body_field req ''isPublic'')) (body_field req ''subjectId'')
              (case req_file req of None \<Rightarrow> course_image c
               | Some file \<Rightarrow> toString_base64 (readFileSync file)))"
  shows "\<exists>c' d'. updateCourseHandler sch d req = (Reply 200 (CourseBody c'), d')
           \<and> course_findUnique d' cid = Some c'
           \<and> course_isPublic c' = isPublicBoolean (body_field req ''isPublic'')"
proof -
  obtain c' d' where u: "course_update sch d cid (body_field req ''title'')
        (body_field req ''description'') (isPublicBoolean (body_field req ''isPublic''))
        (body_field req ''subjectId'')
        (case req_file req of None \<Rightarrow> course_image c
         | Some file \<Rightarrow> toString_base64 (readFileSync file)) = Some (c', d')"
    and f: "course_findUnique d' cid = Some c'"
    and p: "course_isPublic c' = isPublicBoolean (body_field req ''isPublic'')"
    using course_update_result [OF assms(2) assms(5)] by blast
  have "updateCourseHandler sch d req = (Reply 200 (CourseBody c'), d')"
    using assms(1-4) u by (simp add: updateCourseHandler_def appAssert_def OK_def Let_def)
  with f p show ?thesis by blast
qed


text \<open>
  A creation with a title and a file, by a user with a teacher profile and with a write
  the schema accepts, is answered 201 with the row appended to the courses, whose
  visibility is the parsed flag of the body.
\<close>

lemma createCourseHandler_created:
  assumes "truthy (body_field req ''title'')"
    and "req_userId req = Some u"
    and "teacher_findUnique_userId d u = Some t"
    and "req_file req = Some f"
    and "accepts sch d
           (CourseCreate (body_field req ''title'') (body_field req ''description'')
              (isPublicBoolean (body_field req ''isPublic'')) (teacher_teacherId t)
              (body_field req ''subjectId'') (toString_base64 (readFileSync f)))"
  shows "\<exists>c'. createCourseHandler sch d req
                = (Reply 201 (CourseBody c'), d\<lparr>courses := courses d @ [c']\<rparr>)
           \<and> course_isPublic c' = isPublicBoolean (body_field req ''isPublic'')"
  using assms
  by (simp add: createCourseHandler_def appAssert_def course_create_def CREATED_def Let_def)

subsection \<open>The small store\<close>

lemma demo_accepts: "accepts permissive_schema d w"
  by (simp add: permissive_schema_def)

lemma demo_find_algebra: "course_findUnique demo_db ''c1'' = Some algebra"
  by (simp add: course_findUnique_def demo_db_def algebra_def)

lemma demo_teacher_algebra: "course_teacher demo_db algebra = Some ada"
  by (simp add: course_teacher_def demo_db_def algebra_def ada_def)

lemma demo_find_drafts: "course_findUnique demo_db ''c2'' = Some drafts"
  by (simp add: course_findUnique_def demo_db_def algebra_def drafts_def)

lemma demo_teacher_drafts: "course_teacher demo_db drafts = Some bob"
  by (simp add: course_teacher_def demo_db_def drafts_def ada_def bob_def)

lemma demo_find_ada: "teacher_findUnique_userId demo_db ''u1'' = Some ada"
  by (simp add: teacher_findUnique_userId_def demo_db_def ada_def)

lemma demo_find_chapter1: "topic_findUnique demo_db ''p1'' = Some chapter1"
  by (simp add: topic_findUnique_def demo_db_def chapter1_def)

lemma demo_course_chapter1: "topic_course demo_db chapter1 = Some algebra"
  by (simp add: topic_course_def chapter1_def demo_find_algebra)

lemma demo_find_link1: "content_findUnique demo_db ''k1'' = Some link1"
  by (simp add: content_findUnique_def demo_db_def link1_def)

lemma demo_topic_link1: "content_topic demo_db link1 = Some chapter1"
  by (simp add: content_topic_def link1_def demo_find_chapter1)

section \<open>The properties of the specification\<close>

subsection \<open>Listing all courses\<close>

text \<open>
  Claim C1. \<open>GET /all\<close> is to be answered with the list of courses only for an
  authenticated teacher. The route is registered with no middleware: a request with no
  identity is answered 200 with every course, public or private, although the same
  request is turned away by the chain \<open>authenticate, isTeacher\<close> of the sibling routes.
\<close>

theorem all_courses_route_is_unguarded:
  "req_userId (bare_request GET [''all'']) = None
   \<and> run_chain [authenticate closed_door, isTeacher closed_door] getAllCoursesHandler demo_db
        (bare_request GET [''all''])
       = (Reply 401 (AppErrorBody ''Not authorized''), demo_db)
   \<and> dispatch (CourseRoutes closed_door permissive_schema) demo_db (bare_request GET [''all''])
       = Some (Reply 200 (CoursesBody
           [\<lparr>cl_course = algebra,
              cl_teacher = Some \<lparr>tu_teacher = ada,
                                 tu_user = Some \<lparr>names_firstName = ''Ada'',
                                                 names_lastName = ''Lovelace''\<rparr>\<rparr>\<rparr>,
            \<lparr>cl_course = drafts,
              cl_teacher = Some \<lparr>tu_teacher = bob,
                                 tu_user = Some \<lparr>names_firstName = ''Bob'',
                                                 names_lastName = ''Boole''\<rparr>\<rparr>\<rparr>]),
         demo_db)"
proof -
  have 1: "dispatch (CourseRoutes closed_door permissive_schema) demo_db (bare_request GET [''all''])
      = Some (getAllCoursesHandler demo_db (bare_request GET [''all'']))"
    by (simp add: CourseRoutes_def bare_request_def same_segment_def)
  have 2: "courses demo_db = [algebra, drafts]"
    by (simp add: demo_db_def)
  have 3: "teacher_user demo_db ada
             = Some \<lparr>names_firstName = ''Ada'', names_lastName = ''Lovelace''\<rparr>"
    by (simp add: teacher_user_def demo_db_def ada_def)
  have 4: "teacher_user demo_db bob
             = Some \<lparr>names_firstName = ''Bob'', names_lastName = ''Boole''\<rparr>"
    by (simp add: teacher_user_def demo_db_def bob_def)
  have 5: "getAllCoursesHandler demo_db (bare_request GET [''all''])
      = (Reply 200 (CoursesBody
           [\<lparr>cl_course = algebra,
              cl_teacher = Some \<lparr>tu_teacher = ada,
                                 tu_user = Some \<lparr>names_firstName = ''Ada'',
                                                 names_lastName = ''Lovelace''\<rparr>\<rparr>\<rparr>,
            \<lparr>cl_course = drafts,
              cl_teacher = Some \<lparr>tu_teacher = bob,
                                 tu_user = Some \<lparr>names_firstName = ''Bob'',
                                                 names_lastName = ''Boole''\<rparr>\<rparr>\<rparr>]),
         demo_db)"
    by (simp add: getAllCoursesHandler_def 2 include_teacher_user_def demo_teacher_algebra
        demo_teacher_drafts 3 4 OK_def)
  have 6: "run_chain [authenticate closed_door, isTeacher closed_door] getAllCoursesHandler demo_db
        (bare_request GET [''all''])
       = (Reply 401 (AppErrorBody ''Not authorized''), demo_db)"
    by (simp add: closed_door_def)
  show ?thesis using 1 5 6 by (simp add: bare_request_def)
qed

subsection \<open>Reading one course\<close>

text \<open>
  Claim C2, as stated, fails: the reply for the course \<open>c1\<close> carries its topic with no
  contents, although the store holds a content item of that topic.
\<close>

theorem course_detail_without_contents_counterexample:
  "course_findUnique demo_db ''c1'' = Some algebra
   \<and> topic_contents demo_db chapter1 = [link1]
   \<and> fst (getCourseByIdHandler demo_db get_algebra)
       = Reply 200 (CourseDetailBody
           \<lparr>cd_course = algebra,
            cd_topics = [\<lparr>tv_topic = chapter1, tv_contents = None\<rparr>],
            cd_teacher = Some \<lparr>tu_teacher = ada,
                               tu_user = Some \<lparr>names_firstName = ''Ada'',
                                               names_lastName = ''Lovelace''\<rparr>\<rparr>,
            cd_enrollments = [\<lparr>enrollment_enrollmentId = ''e1'', enrollment_courseId = ''c1''\<rparr>],
            cd_subject = Some \<lparr>subject_subjectId = ''s1'', subject_name = ''Mathematics''\<rparr>,
            cd_quizzes = [],
            cd_exams = []\<rparr>)"
  by (simp add: getCourseByIdHandler_def get_algebra_def param_def demo_find_algebra OK_def
      topic_contents_def course_topics_def include_teacher_user_def demo_teacher_algebra
      teacher_user_def course_enrollments_def course_subject_def course_quizzes_def
      course_exams_def)
    (simp add: demo_db_def algebra_def chapter1_def link1_def ada_def)

text \<open>
  Claim C2, amended. For every existing course id the reply is 200 with the course, its
  topics in stored order, each without contents, the owning teacher with the names of the
  user, and the enrollments, the subject, the quizzes and the exams of the course; the
  store is left as it is.
\<close>

theorem course_detail_projection:
  assumes "param req ''courseId'' = Some cid"
    and "course_findUnique d cid = Some c"
  shows "\<exists>cd. getCourseByIdHandler d req = (Reply 200 (CourseDetailBody cd), d)
          \<and> cd_course cd = c
          \<and> map tv_topic (cd_topics cd) = filter (\<lambda>t. topic_courseId t = cid) (topics d)
          \<and> (\<forall>tv \<in> set (cd_topics cd). tv_contents tv = None)
          \<and> cd_teacher cd = include_teacher_user d c
          \<and> cd_enrollments cd = filter (\<lambda>e. enrollment_courseId e = cid) (enrollments d)
          \<and> cd_subject cd = course_subject d c
          \<and> cd_quizzes cd = filter (\<lambda>q. quiz_courseId q = cid) (quizzes d)
          \<and> cd_exams cd = filter (\<lambda>e. exam_courseId e = cid) (exams d)"
proof -
  have "course_courseId c = cid"
    using assms(2) find_Some_holds [of "\<lambda>c. course_courseId c = cid"]
    by (simp add: course_findUnique_def)
  then show ?thesis
    using assms
    by (simp add: getCourseByIdHandler_def OK_def course_topics_def course_enrollments_def
        course_quizzes_def course_exams_def comp_def)
qed

theorem course_detail_projection_witness:
  "\<exists>cd. getCourseByIdHandler demo_db get_algebra = (Reply 200 (CourseDetailBody cd), demo_db)
          \<and> cd_course cd = algebra
          \<and> map tv_topic (cd_topics cd) = [chapter1]
          \<and> (\<forall>tv \<in> set (cd_topics cd). tv_contents tv = None)
          \<and> cd_subject cd = Some \<lparr>subject_subjectId = ''s1'', subject_name = ''Mathematics''\<rparr>"
proof -
  have 1: "param get_algebra ''courseId'' = Some ''c1''"
    by (simp add: param_def get_algebra_def)
  have 2: "filter (\<lambda>t. topic_courseId t = ''c1'') (topics demo_db) = [chapter1]"
    by (simp add: demo_db_def chapter1_def)
  have 3: "course_subject demo_db algebra
             = Some \<lparr>subject_subjectId = ''s1'', subject_name = ''Mathematics''\<rparr>"
    by (simp add: course_subject_def demo_db_def algebra_def)
  show ?thesis
    using course_detail_projection [OF 1 demo_find_algebra] 2 3 by auto
qed

subsection \<open>Updating a course\<close>

text \<open>
  Claim C3. An update of an existing course by its owner whose body has no \<open>isPublic\<close>
  field stores \<open>isPublic = false\<close>, whatever the stored value was: the write issued
  carries \<open>False\<close>, and when the schema accepts that write the request is answered 200 and
  the stored course is private afterwards.
\<close>

theorem update_course_without_isPublic:
  assumes "param req ''courseId'' = Some cid"
    and "course_findUnique d cid = Some c"
    and "course_teacher d c = Some t"
    and "req_userId req = Some (teacher_userId t)"
    and "body_field req ''isPublic'' = JUndefined"
    and "accepts sch d
           (CourseUpdate cid (body_field req ''title'') (body_field req ''description'')
              False (body_field req ''subjectId'')
              (case req_file req of None \<Rightarrow> course_image c
               | Some file \<Rightarrow> toString_base64 (readFileSync file)))"
  shows "\<exists>c' d'. updateCourseHandler sch d req = (Reply 200 (CourseBody c'), d')
           \<and> course_findUnique d' cid = Some c'
           \<and> course_isPublic c' = False"
proof -
  have "isPublicBoolean (body_field req ''isPublic'') = False"
    using assms(5) by (simp add: isPublicBoolean_def)
  then show ?thesis
    using updateCourseHandler_owner [OF assms(1-4), of sch] assms(6) by simp
qed

theorem update_course_without_isPublic_witness:
  "course_findUnique demo_db ''c1'' = Some algebra \<and> course_isPublic algebra = True
   \<and> body_field rename_algebra ''isPublic'' = JUndefined
   \<and> (\<exists>c' d'. updateCourseHandler permissive_schema demo_db rename_algebra
                  = (Reply 200 (CourseBody c'), d')
          \<and> course_findUnique d' ''c1'' = Some c' \<and> course_isPublic c' = False)"
proof -
  have 1: "param rename_algebra ''courseId'' = Some ''c1''"
    by (simp add: param_def rename_algebra_def)
  have 4: "req_userId rename_algebra = Some (teacher_userId ada)"
    by (simp add: rename_algebra_def ada_def)
  have 5: "body_field rename_algebra ''isPublic'' = JUndefined"
    by (simp add: body_field_def rename_algebra_def)
  show ?thesis
    using update_course_without_isPublic
            [OF 1 demo_find_algebra demo_teacher_algebra 4 5 demo_accepts]
          demo_find_algebra 5
    by (simp add: algebra_def)
qed

subsection \<open>Ownership and existence of the target\<close>

text \<open>
  Claim C4. An update or a delete of an existing course, topic or content item whose
  owning teacher is not the caller is answered 401, and the store is left as it is: no
  write is issued.
\<close>

theorem not_owner_is_denied:
  assumes "course_teacher d c = Some t"
    and "req_userId req \<noteq> Some (teacher_userId t)"
  shows "(param req ''courseId'' = Some cid \<and> course_findUnique d cid = Some c \<longrightarrow>
            updateCourseHandler sch d req
              = (Reply 401 (AppErrorBody ''Unauthorized to update this course''), d)
          \<and> deleteCourseHandler sch d req
              = (Reply 401 (AppErrorBody ''Unauthorized to delete this course''), d))
       \<and> (param req ''topicId'' = Some tid \<and> topic_findUnique d tid = Some tp
            \<and> topic_course d tp = Some c \<longrightarrow>
            updateTopicHandler sch d req
              = (Reply 401 (AppErrorBody ''Unauthorized to update this topic''), d)
          \<and> deleteTopicHandler sch d req
              = (Reply 401 (AppErrorBody ''Unauthorized to delete this topic''), d))
       \<and> (param req ''contentId'' = Some kid \<and> content_findUnique d kid = Some k
            \<and> content_topic d k = Some tp \<and> topic_course d tp = Some c \<longrightarrow>
            updateContentHandler sch d req
              = (Reply 401 (AppErrorBody ''Unauthorized to update this content''), d)
          \<and> deleteContentHandler sch d req
              = (Reply 401 (AppErrorBody ''Unauthorized to delete this content''), d))"
proof -
  have ne: "Some (teacher_userId t) \<noteq> req_userId req"
    using assms(2) by auto
  show ?thesis
    using assms(1) ne
    by (simp add: updateCourseHandler_def deleteCourseHandler_def updateTopicHandler_def
        deleteTopicHandler_def updateContentHandler_def deleteContentHandler_def
        appAssert_def UNAUTHORIZED_def Let_def)
qed

theorem not_owner_is_denied_witness:
  "deleteCourseHandler permissive_schema demo_db (bob_on DELETE [''c1''] [(''courseId'', ''c1'')])
     = (Reply 401 (AppErrorBody ''Unauthorized to delete this course''), demo_db)
   \<and> updateTopicHandler permissive_schema demo_db
        (bob_on PUT [''topic'', ''p1''] [(''topicId'', ''p1'')])
     = (Reply 401 (AppErrorBody ''Unauthorized to update this topic''), demo_db)
   \<and> deleteContentHandler permissive_schema demo_db
        (bob_on DELETE [''content'', ''k1''] [(''contentId'', ''k1'')])
     = (Reply 401 (AppErrorBody ''Unauthorized to delete this content''), demo_db)
   \<and> course_findUnique demo_db ''c1'' = Some algebra"
proof -
  have u: "req_userId (bob_on m p ps) \<noteq> Some (teacher_userId ada)" for m p ps
    by (simp add: bob_on_def ada_def)
  have "param (bob_on DELETE [''c1''] [(''courseId'', ''c1'')]) ''courseId'' = Some ''c1''"
    by (simp add: param_def bob_on_def)
  then have a: "deleteCourseHandler permissive_schema demo_db
       (bob_on DELETE [''c1''] [(''courseId'', ''c1'')])
     = (Reply 401 (AppErrorBody ''Unauthorized to delete this course''), demo_db)"
    using not_owner_is_denied [OF demo_teacher_algebra u, of DELETE "[''c1'']"
        "[(''courseId'', ''c1'')]" "''c1''" permissive_schema]
      demo_find_algebra by simp
  have "param (bob_on PUT [''topic'', ''p1''] [(''topicId'', ''p1'')]) ''topicId'' = Some ''p1''"
    by (simp add: param_def bob_on_def)
  then have b: "updateTopicHandler permissive_schema demo_db
        (bob_on PUT [''topic'', ''p1''] [(''topicId'', ''p1'')])
     = (Reply 401 (AppErrorBody ''Unauthorized to update this topic''), demo_db)"
    using not_owner_is_denied [OF demo_teacher_algebra u, of PUT "[''topic'', ''p1'']"
        "[(''topicId'', ''p1'')]" _ _ "''p1''" chapter1]
      demo_find_chapter1 demo_course_chapter1 by simp
  have "param (bob_on DELETE [''content'', ''k1''] [(''contentId'', ''k1'')]) ''contentId''
          = Some ''k1''"
    by (simp add: param_def bob_on_def)
  then have c: "deleteContentHandler permissive_schema demo_db
        (bob_on DELETE [''content'', ''k1''] [(''contentId'', ''k1'')])
     = (Reply 401 (AppErrorBody ''Unauthorized to delete this content''), demo_db)"
    using not_owner_is_denied [OF demo_teacher_algebra u, of DELETE "[''content'', ''k1'']"
        "[(''contentId'', ''k1'')]" _ _ _ chapter1 "''k1''" link1]
      demo_find_link1 demo_topic_link1 demo_course_chapter1 by simp
  show ?thesis using a b c demo_find_algebra by simp
qed

text \<open>
  Claim C5. An update or a delete whose target id is not in the store is answered 404
  with the store left as it is, and this for every caller identity, present or absent:
  existence is checked before the owner is compared.
\<close>

theorem missing_target_is_not_found:
  "(param req ''courseId'' = Some cid \<and> course_findUnique d cid = None \<longrightarrow>
      (\<forall>u. updateCourseHandler sch d (req\<lparr>req_userId := u\<rparr>)
              = (Reply 404 (AppErrorBody ''Course not found''), d)
          \<and> deleteCourseHandler sch d (req\<lparr>req_userId := u\<rparr>)
              = (Reply 404 (AppErrorBody ''Course not found''), d)))
   \<and> (param req ''topicId'' = Some tid \<and> topic_findUnique d tid = None \<longrightarrow>
      (\<forall>u. updateTopicHandler sch d (req\<lparr>req_userId := u\<rparr>)
              = (Reply 404 (AppErrorBody ''Topic not found''), d)
          \<and> deleteTopicHandler sch d (req\<lparr>req_userId := u\<rparr>)
              = (Reply 404 (AppErrorBody ''Topic not found''), d)))
   \<and> (param req ''contentId'' = Some kid \<and> content_findUnique d kid = None \<longrightarrow>
      (\<forall>u. updateContentHandler sch d (req\<lparr>req_userId := u\<rparr>)
              = (Reply 404 (AppErrorBody ''Content not found''), d)
          \<and> deleteContentHandler sch d (req\<lparr>req_userId := u\<rparr>)
              = (Reply 404 (AppErrorBody ''Content not found''), d)))"
  by (simp add: updateCourseHandler_def deleteCourseHandler_def updateTopicHandler_def
      deleteTopicHandler_def updateContentHandler_def deleteContentHandler_def
      param_def NOT_FOUND_def Let_def)

theorem missing_target_is_not_found_witness:
  "course_findUnique demo_db ''c9'' = None
   \<and> (\<forall>u. deleteCourseHandler permissive_schema demo_db
             ((bob_on DELETE [''c9''] [(''courseId'', ''c9'')])\<lparr>req_userId := u\<rparr>)
            = (Reply 404 (AppErrorBody ''Course not found''), demo_db))
   \<and> topic_findUnique demo_db ''p9'' = None
   \<and> (\<forall>u. updateTopicHandler permissive_schema demo_db
             ((bob_on PUT [''topic'', ''p9''] [(''topicId'', ''p9'')])\<lparr>req_userId := u\<rparr>)
            = (Reply 404 (AppErrorBody ''Topic not found''), demo_db))
   \<and> content_findUnique demo_db ''k9'' = None
   \<and> (\<forall>u. updateContentHandler permissive_schema demo_db
             ((bob_on PUT [''content'', ''k9''] [(''contentId'', ''k9'')])\<lparr>req_userId := u\<rparr>)
            = (Reply 404 (AppErrorBody ''Content not found''), demo_db))"
proof -
  have 1: "course_findUnique demo_db ''c9'' = None"
    by (simp add: course_findUnique_def demo_db_def algebra_def drafts_def)
  have 2: "topic_findUnique demo_db ''p9'' = None"
    by (simp add: topic_findUnique_def demo_db_def chapter1_def)
  have 3: "content_findUnique demo_db ''k9'' = None"
    by (simp add: content_findUnique_def demo_db_def link1_def)
  have 4: "param (bob_on DELETE [''c9''] [(''courseId'', ''c9'')]) ''courseId'' = Some ''c9''"
    by (simp add: param_def bob_on_def)
  have 5: "param (bob_on PUT [''topic'', ''p9''] [(''topicId'', ''p9'')]) ''topicId'' = Some ''p9''"
    by (simp add: param_def bob_on_def)
  have 6: "param (bob_on PUT [''content'', ''k9''] [(''contentId'', ''k9'')]) ''contentId''
             = Some ''k9''"
    by (simp add: param_def bob_on_def)
  show ?thesis
    using missing_target_is_not_found [of "bob_on DELETE [''c9''] [(''courseId'', ''c9'')]"
        "''c9''" demo_db permissive_schema]
      missing_target_is_not_found [of "bob_on PUT [''topic'', ''p9''] [(''topicId'', ''p9'')]"
        _ demo_db permissive_schema "''p9''"]
      missing_target_is_not_found [of "bob_on PUT [''content'', ''k9''] [(''contentId'', ''k9'')]"
        _ demo_db permissive_schema _ "''k9''"]
      1 2 3 4 5 6 by simp
qed

subsection \<open>Creating a course\<close>

text \<open>
  Claim C6, as stated, fails: a creation with a title and no image file, by a caller who
  has no teacher profile, is answered 404, not 400; the teacher is looked up before the
  file is looked at.
\<close>

theorem create_without_image_counterexample:
  "truthy (body_field geometry_without_image ''title'')
   \<and> req_file geometry_without_image = None
   \<and> createCourseHandler permissive_schema demo_db geometry_without_image
       = (Reply 404 (ErrorBody ''Teacher not found''), demo_db)"
  by (simp add: createCourseHandler_def geometry_without_image_def body_field_def
      appAssert_def teacher_findUnique_userId_def demo_db_def ada_def bob_def NOT_FOUND_def)

text \<open>
  Claim C6, amended. A creation whose title is missing (or otherwise falsy) is answered
  400. A creation with a title and without an image file, by an identified caller, is
  answered 400 when the caller has a teacher profile and 404 when not. In each of these
  cases no course is persisted: the store is left as it is.
\<close>

theorem create_without_title_or_image:
  "(\<not> truthy (body_field req ''title'') \<longrightarrow>
      createCourseHandler sch d req = (Reply 400 (AppErrorBody ''Missing required fields''), d))
   \<and> (truthy (body_field req ''title'') \<and> req_file req = None \<and> req_userId req = Some u \<longrightarrow>
      createCourseHandler sch d req
        = (if teacher_findUnique_userId d u = None
           then (Reply 404 (ErrorBody ''Teacher not found''), d)
           else (Reply 400 (ErrorBody ''No image uploaded''), d)))
   \<and> (\<not> truthy (body_field req ''title'') \<or> req_file req = None \<longrightarrow>
      snd (createCourseHandler sch d req) = d)"
  by (auto simp add: createCourseHandler_def appAssert_def BAD_REQUEST_def NOT_FOUND_def Let_def
      split: option.splits)

theorem create_without_title_or_image_witness:
  "body_field (bare_request POST [''create'']) ''title'' = JUndefined
   \<and> createCourseHandler permissive_schema demo_db (bare_request POST [''create''])
     = (Reply 400 (AppErrorBody ''Missing required fields''), demo_db)
   \<and> createCourseHandler permissive_schema demo_db
        (geometry_without_image\<lparr>req_userId := Some ''u1''\<rparr>)
     = (Reply 400 (ErrorBody ''No image uploaded''), demo_db)
   \<and> snd (createCourseHandler permissive_schema demo_db geometry_without_image) = demo_db"
proof -
  have 0: "body_field (bare_request POST [''create'']) ''title'' = JUndefined"
    by (simp add: body_field_def bare_request_def)
  then have 1: "\<not> truthy (body_field (bare_request POST [''create'']) ''title'')"
    by simp
  have 2: "truthy (body_field (geometry_without_image\<lparr>req_userId := Some ''u1''\<rparr>) ''title'')
           \<and> req_file (geometry_without_image\<lparr>req_userId := Some ''u1''\<rparr>) = None
           \<and> req_userId (geometry_without_image\<lparr>req_userId := Some ''u1''\<rparr>) = Some ''u1''"
    by (simp add: body_field_def geometry_without_image_def)
  have 3: "req_file geometry_without_image = None"
    by (simp add: geometry_without_image_def)
  show ?thesis
    using create_without_title_or_image [of "bare_request POST [''create'']" permissive_schema demo_db]
      create_without_title_or_image [of "geometry_without_image\<lparr>req_userId := Some ''u1''\<rparr>"
        permissive_schema demo_db "''u1''"]
      create_without_title_or_image [of geometry_without_image permissive_schema demo_db]
      0 1 2 3 demo_find_ada
    by simp
qed

subsection \<open>The visibility flag\<close>

text \<open>
  Claim C7. The parsing of the visibility flag gives true for the string \<open>"true"\<close> and for
  the boolean \<open>true\<close> and false for every other value, the absent one included. A creation
  that gets through its checks is answered 201 and appends a course whose visibility is
  the parsed flag; an update by the owner is answered 200 and the stored course has the
  parsed flag as its visibility. In both, that the schema accepts the write is assumed.
\<close>

theorem visibility_flag_is_normalized:
  "isPublicBoolean (JStr ''true'') \<and> isPublicBoolean (JBool True)
   \<and> (\<forall>v. v \<noteq> JStr ''true'' \<and> v \<noteq> JBool True \<longrightarrow> \<not> isPublicBoolean v)
   \<and> (truthy (body_field req ''title'') \<and> req_userId req = Some u
        \<and> teacher_findUnique_userId d u = Some t \<and> req_file req = Some f
        \<and> accepts sch d
             (CourseCreate (body_field req ''title'') (body_field req ''description'')
                (isPublicBoolean (body_field req ''isPublic'')) (teacher_teacherId t)
                (body_field req ''subjectId'') (toString_base64 (readFileSync f))) \<longrightarrow>
       (\<exists>c'. createCourseHandler sch d req
                = (Reply 201 (CourseBody c'), d\<lparr>courses := courses d @ [c']\<rparr>)
            \<and> course_isPublic c' = isPublicBoolean (body_field req ''isPublic'')))
   \<and> (param req ''courseId'' = Some cid \<and> course_findUnique d cid = Some c
        \<and> course_teacher d c = Some t' \<and> req_userId req = Some (teacher_userId t')
        \<and> accepts sch d
             (CourseUpdate cid (body_field req ''title'') (body_field req ''description'')
                (isPublicBoolean (body_field req ''isPublic'')) (body_field req ''subjectId'')
                (case req_file req of None \<Rightarrow> course_image c
                 | Some file \<Rightarrow> toString_base64 (readFileSync file))) \<longrightarrow>
       (\<exists>c' d'. updateCourseHandler sch d req = (Reply 200 (CourseBody c'), d')
            \<and> course_findUnique d' cid = Some c'
            \<and> course_isPublic c' = isPublicBoolean (body_field req ''isPublic'')))"
proof -
  have a: "isPublicBoolean (JStr ''true'') \<and> isPublicBoolean (JBool True)
           \<and> (\<forall>v. v \<noteq> JStr ''true'' \<and> v \<noteq> JBool True \<longrightarrow> \<not> isPublicBoolean v)"
    by (simp add: isPublicBoolean_def)
  show ?thesis
    using a createCourseHandler_created [of req u d t f sch]
      updateCourseHandler_owner [of req cid d c t' sch]
    by blast
qed

theorem visibility_flag_is_normalized_witness:
  "(\<exists>c'. createCourseHandler permissive_schema demo_db geometry_by_ada
            = (Reply 201 (CourseBody c'), demo_db\<lparr>courses := courses demo_db @ [c']\<rparr>)
        \<and> course_isPublic c' = True)
   \<and> course_isPublic drafts = False
   \<and> (\<exists>c' d'. updateCourseHandler permissive_schema demo_db publish_drafts
                 = (Reply 200 (CourseBody c'), d')
        \<and> course_findUnique d' ''c2'' = Some c' \<and> course_isPublic c' = True)"
proof -
  have 1: "truthy (body_field geometry_by_ada ''title'') \<and> req_userId geometry_by_ada = Some ''u1''
      \<and> req_file geometry_by_ada
          = Some \<lparr>upload_path = ''uploads/g.png'', upload_bytes = [77, 97, 110]\<rparr>"
    by (simp add: body_field_def geometry_by_ada_def)
  have 2: "isPublicBoolean (body_field geometry_by_ada ''isPublic'') = True"
    by (simp add: body_field_def geometry_by_ada_def isPublicBoolean_def)
  have 3: "param publish_drafts ''courseId'' = Some ''c2''
      \<and> req_userId publish_drafts = Some (teacher_userId bob)"
    by (simp add: param_def publish_drafts_def bob_def)
  have 4: "isPublicBoolean (body_field publish_drafts ''isPublic'') = True"
    by (simp add: body_field_def publish_drafts_def isPublicBoolean_def)
  have a: "\<exists>c'. createCourseHandler permissive_schema demo_db geometry_by_ada
            = (Reply 201 (CourseBody c'), demo_db\<lparr>courses := courses demo_db @ [c']\<rparr>)
        \<and> course_isPublic c' = True"
    using visibility_flag_is_normalized [where req = geometry_by_ada and u = "''u1''"
        and d = demo_db and t = ada and sch = permissive_schema
        and f = "\<lparr>upload_path = ''uploads/g.png'', upload_bytes = [77, 97, 110]\<rparr>"]
      1 2 demo_find_ada demo_accepts by simp
  have b: "\<exists>c' d'. updateCourseHandler permissive_schema demo_db publish_drafts
                 = (Reply 200 (CourseBody c'), d')
        \<and> course_findUnique d' ''c2'' = Some c' \<and> course_isPublic c' = True"
    using visibility_flag_is_normalized [where req = publish_drafts and cid = "''c2''"
        and d = demo_db and c = drafts and t' = bob and sch = permissive_schema]
      3 4 demo_find_drafts demo_teacher_drafts demo_accepts by simp
  show ?thesis using a b by (simp add: drafts_def)
qed

subsection \<open>The type of a content item\<close>

text \<open>
  Claim C8. Adding content to an existing topic whose course the caller owns, with a type
  that is none of \<open>TEXT\<close>, \<open>LINK\<close> and \<open>YOUTUBE_VIDEO\<close>, is answered 400 and creates no
  content item: the store is left as it is.
\<close>

theorem add_content_with_invalid_type:
  assumes "body_field req ''topicId'' = JStr tid"
    and "topic_findUnique d tid = Some tp"
    and "topic_course d tp = Some c"
    and "course_teacher d c = Some t"
    and "req_userId req = Some (teacher_userId t)"
    and "body_field req ''type'' \<notin> {JStr ''TEXT'', JStr ''LINK'', JStr ''YOUTUBE_VIDEO''}"
  shows "\<exists>msg. addContentToTopicHandler sch d req = (Reply 400 (AppErrorBody msg), d)"
  using assms
  by (simp add: addContentToTopicHandler_def appAssert_def validTypes_def BAD_REQUEST_def Let_def)

theorem add_content_with_invalid_type_witness:
  "body_field audio_by_ada ''type'' = JStr ''AUDIO''
   \<and> (\<exists>msg. addContentToTopicHandler permissive_schema demo_db audio_by_ada
               = (Reply 400 (AppErrorBody msg), demo_db))"
proof -
  have 1: "body_field audio_by_ada ''topicId'' = JStr ''p1''"
    by (simp add: body_field_def audio_by_ada_def)
  have 5: "req_userId audio_by_ada = Some (teacher_userId ada)"
    by (simp add: audio_by_ada_def ada_def)
  have 6: "body_field audio_by_ada ''type'' = JStr ''AUDIO''"
    by (simp add: body_field_def audio_by_ada_def)
  then have 7: "body_field audio_by_ada ''type''
                  \<notin> {JStr ''TEXT'', JStr ''LINK'', JStr ''YOUTUBE_VIDEO''}"
    by simp
  show ?thesis
    using add_content_with_invalid_type
            [OF 1 demo_find_chapter1 demo_course_chapter1 demo_teacher_algebra 5 7] 6
    by simp
qed

subsection \<open>Listing the public courses\<close>

text \<open>
  Claim C9. Whatever courses the store holds, the public list is answered 200 and holds
  no course whose visibility flag is false; it holds the public courses of the store, in
  stored order.
\<close>

theorem public_list_has_no_private_course:
  "\<exists>pcs. getPublicCoursesHandler d req = (Reply 200 (PublicCoursesBody pcs), d)
         \<and> (\<forall>pc \<in> set pcs. course_isPublic (pc_course pc) \<noteq> False)
         \<and> map pc_course pcs = filter course_isPublic (courses d)"
  by (simp add: getPublicCoursesHandler_def OK_def Let_def comp_def)

theorem public_list_has_no_private_course_witness:
  "drafts \<in> set (courses demo_db) \<and> course_isPublic drafts = False
   \<and> (\<exists>pcs. getPublicCoursesHandler demo_db (bare_request GET [''public''])
              = (Reply 200 (PublicCoursesBody pcs), demo_db)
         \<and> (\<forall>pc \<in> set pcs. course_isPublic (pc_course pc) \<noteq> False)
         \<and> map pc_course pcs = [algebra])"
proof -
  have "filter course_isPublic (courses demo_db) = [algebra]"
    by (simp add: demo_db_def algebra_def drafts_def)
  then show ?thesis
    using public_list_has_no_private_course [of demo_db "bare_request GET [''public'']"]
    by (simp add: demo_db_def drafts_def)
qed

subsection \<open>Updating a content item\<close>




end
